theory Spec2Isabelle
  imports Complex_Main "HOL-Library.Stream"
begin

section \<open>Idempotent payment processing (Idempotency\_Engine/main.py)\<close>

text \<open>
  The program is one class, \<^verbatim>\<open>PaymentProcessor\<close>, with one method,
  \<^verbatim>\<open>process_payment(idempotency_key, amount)\<close>, and a driver script that calls it.
  The method reads and writes the dictionary \<^verbatim>\<open>processed_keys\<close>, prints one line,
  draws one number from \<^verbatim>\<open>random.random()\<close> and either returns a string or raises
  \<^verbatim>\<open>ConnectionError\<close>. All four effects are explicit below: the dictionary, the
  printed lines and the random source are fields of the state that the method takes and
  returns, and the exception is the left summand of the result.
\<close>

subsection \<open>Amounts: \<^verbatim>\<open>decimal.Decimal\<close> and its string form\<close>

text \<open>
  A \<^verbatim>\<open>Decimal\<close> is a sign, a string of coefficient digits and an exponent, or one of
  the special values infinity, quiet NaN and signalling NaN (the NaNs carry a digit string
  as payload). The sign is \<open>True\<close> for a negative value.
\<close>

datatype decimal =
    Number bool string int
  | Infinity bool
  | NaN bool string
  | SNaN bool string

text \<open>The \<^verbatim>\<open>"%+d"\<close> conversion of an integer: a sign, then the decimal digits.\<close>

function str_nat :: "nat \<Rightarrow> string" where
  "str_nat n =
     (if n < 10 then [''0123456789'' ! n]
      else str_nat (n div 10) @ [''0123456789'' ! (n mod 10)])"
  by pat_completeness auto
termination
  by (relation "measure id") auto

declare str_nat.simps [simp del]

definition plus_d :: "int \<Rightarrow> string" where
  "plus_d i = (if i < 0 then ''-'' @ str_nat (nat (- i)) else ''+'' @ str_nat (nat i))"

text \<open>
  \<^verbatim>\<open>Decimal.__str__\<close> of the standard library (scientific notation, capital \<open>E\<close>
  as in the default context), which is what the empty format specification of
  \<^verbatim>\<open>f"{amount}"\<close> produces.
\<close>

definition str_decimal :: "decimal \<Rightarrow> string" where
  "str_decimal d =
     (case d of
        Infinity sg \<Rightarrow> (if sg then ''-'' else '''') @ ''Infinity''
      | NaN sg payload \<Rightarrow> (if sg then ''-'' else '''') @ ''NaN'' @ payload
      | SNaN sg payload \<Rightarrow> (if sg then ''-'' else '''') @ ''sNaN'' @ payload
      | Number sg digits e \<Rightarrow>
          (let leftdigits = e + int (length digits);
               dotplace = (if e \<le> 0 \<and> leftdigits > - 6 then leftdigits else 1);
               intpart =
                 (if dotplace \<le> 0 then ''0''
                  else if dotplace \<ge> int (length digits)
                    then digits @ replicate (nat (dotplace - int (length digits))) (CHR ''0'')
                  else take (nat dotplace) digits);
               fracpart =
                 (if dotplace \<le> 0
                    then ''.'' @ replicate (nat (- dotplace)) (CHR ''0'') @ digits
                  else if dotplace \<ge> int (length digits) then ''''
                  else ''.'' @ drop (nat dotplace) digits);
               exp = (if leftdigits = dotplace then ''''
                      else ''E'' @ plus_d (leftdigits - dotplace))
           in (if sg then ''-'' else '''') @ intpart @ fracpart @ exp))"

subsection \<open>State and errors\<close>

text \<open>
  \<open>processed_keys\<close> is the dictionary of the processor object; \<open>stdout\<close> is the list of
  lines printed so far; \<open>rng\<close> is the sequence of numbers that the coming calls of
  \<^verbatim>\<open>random.random()\<close> return. Each of these numbers is a double in \<open>[0, 1)\<close>,
  held here as the rational it denotes. No double lies between \<open>1/5\<close> and the double
  nearest to it (which is above \<open>1/5\<close>), so the floating-point test
  \<^verbatim>\<open>random.random() < 0.2\<close> and the exact comparison with \<open>2/10\<close> agree on
  every double.
\<close>

record state =
  processed_keys :: "string \<rightharpoonup> string"
  stdout :: "string list"
  rng :: "rat stream"

datatype error = ConnectionError string

text \<open>\<^verbatim>\<open>PaymentProcessor()\<close>: an empty dictionary; nothing printed yet.\<close>

definition init :: "rat stream \<Rightarrow> state" where
  "init rs = \<lparr>processed_keys = Map.empty, stdout = [], rng = rs\<rparr>"

subsection \<open>\<^verbatim>\<open>process_payment\<close>\<close>

definition process_payment :: "state \<Rightarrow> string \<Rightarrow> decimal \<Rightarrow> (error + string) \<times> state" where
  "process_payment st idempotency_key amount =
     (if idempotency_key \<in> dom (processed_keys st)
        then (Inr ''Payment already processed.'', st)
      else
        (let st1 = st\<lparr>stdout := stdout st @
                     [''Processing payment of '' @ str_decimal amount @
                      '' with key '' @ idempotency_key @ ''...'']\<rparr>;
             result = ''Success: processed payment of '' @ str_decimal amount @
                      '' with key '' @ idempotency_key;
             st2 = st1\<lparr>processed_keys := (processed_keys st1)(idempotency_key \<mapsto> result)\<rparr>;
             r = shd (rng st2);
             st3 = st2\<lparr>rng := stl (rng st2)\<rparr>
         in if r < 2 / 10
              then (Inl (ConnectionError
                     ''Payment succeeded but Nigerian bank network failed while responding.''),
                    st3)
            else (Inr result, st3)))"

text \<open>
  The driver's reading of one call (lines 95 to 105 and 111 to 115): an exception is
  labelled \<open>Failed\<close>, the fixed message of the idempotency path \<open>Already processed\<close>,
  every other returned message \<open>Successful\<close>.
\<close>

definition status :: "error + string \<Rightarrow> string" where
  "status outcome =
     (case outcome of
        Inl (ConnectionError _) \<Rightarrow> ''Failed''
      | Inr outcome_message \<Rightarrow>
          (if outcome_message = ''Payment already processed.'' then ''Already processed''
           else ''Successful''))"

subsection \<open>Callers\<close>

text \<open>
  A caller that makes the given calls one after another on the same processor and keeps
  every reply, an exception being caught as the driver catches it (lines 95 to 105), so
  that the next call runs on the state the previous one left.
\<close>

fun process_all :: "state \<Rightarrow> (string \<times> decimal) list \<Rightarrow> (error + string) list \<times> state" where
  "process_all st [] = ([], st)"
| "process_all st ((k, a) # calls) =
     (case process_payment st k a of (r, st') \<Rightarrow>
        (case process_all st' calls of (rs, st'') \<Rightarrow> (r # rs, st'')))"

text \<open>
  The specification's failure trial, in its words: an independent Bernoulli trial with a
  configured failure probability in \<open>[0, 1]\<close>. On a uniform sample \<open>r\<close> of \<open>[0, 1)\<close>
  such a trial fires when \<open>r\<close> is below the probability. The source has no such
  parameter; this definition only states what the specification asks for.
\<close>

definition spec_trial_fires :: "rat \<Rightarrow> rat \<Rightarrow> bool" where
  "spec_trial_fires failure_probability r = (r < failure_probability)"

text \<open>
  The state that \<^verbatim>\<open>process_payment("k1", Decimal("1000.00"))\<close> leaves on a new
  processor, \<open>rs\<close> being the random numbers still to come.
\<close>

definition paid_k1 :: "rat stream \<Rightarrow> state" where
  "paid_k1 rs =
     \<lparr>processed_keys = [''k1'' \<mapsto> ''Success: processed payment of 1000.00 with key k1''],
      stdout = [''Processing payment of 1000.00 with key k1...''],
      rng = rs\<rparr>"

section \<open>Properties\<close>

subsection \<open>The two paths of \<^verbatim>\<open>process_payment\<close>\<close>

lemma process_payment_seen:
  "k \<in> dom (processed_keys st) \<Longrightarrow>
   process_payment st k a = (Inr ''Payment already processed.'', st)"
  by (simp add: process_payment_def)

lemma process_payment_fresh:
  "k \<notin> dom (processed_keys st) \<Longrightarrow>
   process_payment st k a =
     (if shd (rng st) < 2 / 10
        then Inl (ConnectionError
               ''Payment succeeded but Nigerian bank network failed while responding.'')
      else Inr (''Success: processed payment of '' @ str_decimal a @ '' with key '' @ k),
      st\<lparr>stdout := stdout st @
            [''Processing payment of '' @ str_decimal a @ '' with key '' @ k @ ''...''],
         processed_keys := (processed_keys st)
            (k \<mapsto> ''Success: processed payment of '' @ str_decimal a @ '' with key '' @ k),
         rng := stl (rng st)\<rparr>)"
  by (simp add: process_payment_def Let_def)

lemma status_success [simp]: "status (Inr (CHR ''S'' # x)) = ''Successful''"
  by (simp add: status_def)

lemma status_marker [simp]:
  "status (Inr ''Payment already processed.'') = ''Already processed''"
  by (simp add: status_def)

lemma status_error [simp]: "status (Inl e) = ''Failed''"
  by (cases e) (simp add: status_def)

lemma str_1000 [simp]: "str_decimal (Number False ''100000'' (- 2)) = ''1000.00''"
  by (simp add: str_decimal_def)

lemma str_50 [simp]: "str_decimal (Number False ''5000'' (- 2)) = ''50.00''"
  by (simp add: str_decimal_def)

lemma str_minus_5 [simp]: "str_decimal (Number True ''500'' (- 2)) = ''-5.00''"
  by (simp add: str_decimal_def)

lemma str_infinity [simp]: "str_decimal (Infinity False) = ''Infinity''"
  by (simp add: str_decimal_def)

lemma init_fresh [simp]: "k \<notin> dom (processed_keys (init rs))"
  by (simp add: init_def)

subsection \<open>A stored value stays as it is\<close>

text \<open>
  Whatever the key and the amount of a call, a value that is in the dictionary before the
  call is there, unchanged, after it; so it is after any sequence of calls. A call on a
  stored key is answered with the fixed message and leaves the state as it is, so any
  number of such calls does.
\<close>

lemma process_payment_keeps:
  "processed_keys st k = Some v \<Longrightarrow> processed_keys (snd (process_payment st k' a)) k = Some v"
  by (cases "k' \<in> dom (processed_keys st)")
     (auto simp: process_payment_seen process_payment_fresh)

lemma process_all_keeps:
  "processed_keys st k = Some v \<Longrightarrow> processed_keys (snd (process_all st calls)) k = Some v"
proof (induction calls arbitrary: st)
  case Nil
  then show ?case by simp
next
  case (Cons c calls)
  obtain k' a where c: "c = (k', a)" by (cases c)
  obtain r st' where step: "process_payment st k' a = (r, st')" by (cases "process_payment st k' a")
  from Cons.prems step have "processed_keys st' k = Some v"
    using process_payment_keeps [of st k v k' a] by simp
  from Cons.IH [OF this] show ?case
    by (cases "process_all st' calls") (simp add: c step)
qed

lemma process_all_seen:
  "k \<in> dom (processed_keys st) \<Longrightarrow>
   process_all st (map (Pair k) amounts) =
     (replicate (length amounts) (Inr ''Payment already processed.''), st)"
  by (induction amounts) (simp_all add: process_payment_seen)

lemma process_all_same_key:
  assumes "k \<notin> dom (processed_keys st)"
  shows "processed_keys (snd (process_all st ((k, a) # map (Pair k) amounts))) k =
           Some (''Success: processed payment of '' @ str_decimal a @ '' with key '' @ k)"
    and "tl (fst (process_all st ((k, a) # map (Pair k) amounts))) =
           replicate (length amounts) (Inr ''Payment already processed.'')"
proof -
  obtain r st' where step: "process_payment st k a = (r, st')"
    by (cases "process_payment st k a")
  with assms have stored: "processed_keys st' k =
      Some (''Success: processed payment of '' @ str_decimal a @ '' with key '' @ k)"
    by (auto simp: process_payment_fresh)
  then have seen: "k \<in> dom (processed_keys st')" by blast
  show "processed_keys (snd (process_all st ((k, a) # map (Pair k) amounts))) k =
           Some (''Success: processed payment of '' @ str_decimal a @ '' with key '' @ k)"
    using stored by (simp add: step process_all_seen [OF seen])
  show "tl (fst (process_all st ((k, a) # map (Pair k) amounts))) =
           replicate (length amounts) (Inr ''Payment already processed.'')"
    by (simp add: step process_all_seen [OF seen])
qed

subsection \<open>The idempotency path\<close>

text \<open>
  Claim C7. For every key that is in the dictionary and every amount, the call returns the
  fixed message of the idempotency path and the whole state after the call is the state
  before it: no entry of the dictionary changes, the entry of the key itself included,
  nothing is printed and no random number is drawn.
\<close>

theorem duplicate_path_no_effect:
  "k \<in> dom (processed_keys st) \<Longrightarrow>
   snd (process_payment st k a) = st \<and>
   fst (process_payment st k a) = Inr ''Payment already processed.''"
  by (simp add: process_payment_seen)

text \<open>
  Claim C7 at a concrete input: key \<open>k1\<close> is stored for 1000.00, the call passes 50.00,
  and the next random number, 0.1, would have fired.
\<close>

theorem duplicate_path_no_effect_witness:
  "''k1'' \<in> dom (processed_keys (paid_k1 (sconst (1 / 10)))) \<and>
   snd (process_payment (paid_k1 (sconst (1 / 10))) ''k1'' (Number False ''5000'' (- 2))) =
     paid_k1 (sconst (1 / 10)) \<and>
   fst (process_payment (paid_k1 (sconst (1 / 10))) ''k1'' (Number False ''5000'' (- 2))) =
     Inr ''Payment already processed.''"
  using duplicate_path_no_effect
    [of "''k1''" "paid_k1 (sconst (1 / 10))" "Number False ''5000'' (- 2)"]
  by (simp add: paid_k1_def)

text \<open>
  Claim C5. For every key that has a stored value and every amount, the amount first paid
  or any other, the call is answered as a duplicate (the driver labels it
  \<open>Already processed\<close>), and the amount plays no part: the call with any other amount
  gives the same reply and the same state.
\<close>

theorem duplicate_regardless_of_amount:
  "k \<in> dom (processed_keys st) \<Longrightarrow>
   status (fst (process_payment st k a)) = ''Already processed'' \<and>
   process_payment st k a = process_payment st k a'"
  by (simp add: process_payment_seen)

text \<open>
  Claim C5 at a concrete input: key \<open>k1\<close> is stored for 1000.00; the call with 50.00 is
  a duplicate and equals the call with 1000.00.
\<close>

theorem duplicate_regardless_of_amount_witness:
  "''k1'' \<in> dom (processed_keys (paid_k1 (sconst (1 / 10)))) \<and>
   status (fst (process_payment (paid_k1 (sconst (1 / 10))) ''k1''
     (Number False ''5000'' (- 2)))) = ''Already processed'' \<and>
   process_payment (paid_k1 (sconst (1 / 10))) ''k1'' (Number False ''5000'' (- 2)) =
   process_payment (paid_k1 (sconst (1 / 10))) ''k1'' (Number False ''100000'' (- 2))"
proof -
  have seen: "''k1'' \<in> dom (processed_keys (paid_k1 (sconst (1 / 10))))"
    by (simp add: paid_k1_def)
  from duplicate_regardless_of_amount
    [OF seen, of "Number False ''5000'' (- 2)" "Number False ''100000'' (- 2)"] seen
  show ?thesis by blast
qed

subsection \<open>The first call on a key\<close>

text \<open>
  Claim C9. For every key that is not in the dictionary and every amount, when the random
  number drawn is not below 0.2 the call returns the string
  \<open>Success: processed payment of {a} with key {k}\<close>, and that same string is the value
  stored for the key after the call.
\<close>

theorem committed_reply_is_stored_value:
  "k \<notin> dom (processed_keys st) \<Longrightarrow> \<not> shd (rng st) < 2 / 10 \<Longrightarrow>
   fst (process_payment st k a) =
     Inr (''Success: processed payment of '' @ str_decimal a @ '' with key '' @ k) \<and>
   processed_keys (snd (process_payment st k a)) k =
     Some (''Success: processed payment of '' @ str_decimal a @ '' with key '' @ k)"
  by (simp add: process_payment_fresh)

text \<open>
  Claim C9 at a concrete input: key \<open>k2\<close> is new, the amount is 50.00 and the random
  number is 0.5.
\<close>

theorem committed_reply_is_stored_value_witness:
  "''k2'' \<notin> dom (processed_keys (paid_k1 (sconst (1 / 2)))) \<and>
   \<not> shd (rng (paid_k1 (sconst (1 / 2)))) < 2 / 10 \<and>
   fst (process_payment (paid_k1 (sconst (1 / 2))) ''k2'' (Number False ''5000'' (- 2))) =
     Inr ''Success: processed payment of 50.00 with key k2'' \<and>
   processed_keys (snd (process_payment (paid_k1 (sconst (1 / 2))) ''k2''
     (Number False ''5000'' (- 2)))) ''k2'' =
     Some ''Success: processed payment of 50.00 with key k2''"
  using committed_reply_is_stored_value
    [of "''k2''" "paid_k1 (sconst (1 / 2))" "Number False ''5000'' (- 2)"]
  by (simp add: paid_k1_def)

text \<open>
  Claim C2. Whenever a call raises \<^verbatim>\<open>ConnectionError\<close>, the dictionary after the call
  holds the success message of that call under its key. The exception comes only from a
  call that found the key absent and stored it, and only when the number drawn after the
  store is below 0.2; raising undoes nothing.
\<close>

theorem commit_precedes_signal:
  "fst (process_payment st k a) = Inl e \<Longrightarrow>
   k \<notin> dom (processed_keys st) \<and> shd (rng st) < 2 / 10 \<and>
   processed_keys (snd (process_payment st k a)) k =
     Some (''Success: processed payment of '' @ str_decimal a @ '' with key '' @ k)"
  by (cases "k \<in> dom (processed_keys st)")
     (auto simp: process_payment_seen process_payment_fresh split: if_splits)

text \<open>
  Claim C2 at a concrete input: a new processor, key \<open>k1\<close>, amount 1000.00, random
  number 0.1. The call raises and \<open>k1\<close> is stored.
\<close>

theorem commit_precedes_signal_witness:
  "fst (process_payment (init (sconst (1 / 10))) ''k1'' (Number False ''100000'' (- 2))) =
     Inl (ConnectionError
       ''Payment succeeded but Nigerian bank network failed while responding.'') \<and>
   processed_keys (snd (process_payment (init (sconst (1 / 10))) ''k1''
     (Number False ''100000'' (- 2)))) ''k1'' =
     Some ''Success: processed payment of 1000.00 with key k1''"
proof -
  have failed:
    "fst (process_payment (init (sconst (1 / 10))) ''k1'' (Number False ''100000'' (- 2))) =
       Inl (ConnectionError
         ''Payment succeeded but Nigerian bank network failed while responding.'')"
    by (simp add: process_payment_fresh) (simp add: init_def)
  from commit_precedes_signal [OF failed] failed show ?thesis by simp
qed

subsection \<open>Other keys\<close>

text \<open>
  Claim C10. For every call on key \<open>k\<close> and every other key \<open>k'\<close>, what the dictionary
  holds for \<open>k'\<close> after the call is what it held before. Every key of the dictionary
  before the call is a key after it, and a key after the call is \<open>k\<close> or was a key
  before.
\<close>

theorem other_keys_untouched:
  "(k' \<noteq> k \<longrightarrow>
      processed_keys (snd (process_payment st k a)) k' = processed_keys st k') \<and>
   dom (processed_keys st) \<subseteq> dom (processed_keys (snd (process_payment st k a))) \<and>
   dom (processed_keys (snd (process_payment st k a))) \<subseteq> insert k (dom (processed_keys st))"
  by (cases "k \<in> dom (processed_keys st)")
     (auto simp: process_payment_seen process_payment_fresh)

text \<open>
  Claim C10 at a concrete input: \<open>k1\<close> is stored, the call is on the new key \<open>k2\<close>;
  the value of \<open>k1\<close> stays and the keys after the call lie between \<open>{k1}\<close> and
  \<open>{k1, k2}\<close>.
\<close>

theorem other_keys_untouched_witness:
  "''k1'' \<noteq> ''k2'' \<and>
   processed_keys (snd (process_payment (paid_k1 (sconst (1 / 2))) ''k2''
     (Number False ''5000'' (- 2)))) ''k1'' =
     Some ''Success: processed payment of 1000.00 with key k1'' \<and>
   {''k1''} \<subseteq> dom (processed_keys (snd (process_payment (paid_k1 (sconst (1 / 2))) ''k2''
     (Number False ''5000'' (- 2))))) \<and>
   dom (processed_keys (snd (process_payment (paid_k1 (sconst (1 / 2))) ''k2''
     (Number False ''5000'' (- 2))))) \<subseteq> {''k1'', ''k2''}"
  using other_keys_untouched
    [of "''k1''" "''k2''" "paid_k1 (sconst (1 / 2))" "Number False ''5000'' (- 2)"]
  by (auto simp: paid_k1_def)

subsection \<open>What a repeated call returns\<close>

text \<open>
  Claim C1 (at most once; every call after the first commit returns the stored outcome,
  byte for byte). Two calls \<^verbatim>\<open>process_payment("k1", Decimal("1000.00"))\<close> on a new
  processor, the random numbers being 0.5: the first call returns the success message
  and stores it under \<open>k1\<close>; the second leaves the dictionary as it is, with that one
  value, and returns the fixed string \<open>Payment already processed.\<close>, not the stored
  message.
\<close>

theorem repeated_call_returns_fixed_message:
  "process_all (init (sconst (1 / 2)))
     [(''k1'', Number False ''100000'' (- 2)), (''k1'', Number False ''100000'' (- 2))] =
   ([Inr ''Success: processed payment of 1000.00 with key k1'',
     Inr ''Payment already processed.''],
    paid_k1 (sconst (1 / 2)))"
  by (simp add: process_payment_fresh process_payment_seen init_def paid_k1_def)

text \<open>
  Claim C3 (a retry after a lost acknowledgment returns the duplicate with the amount
  first committed). On a new processor the first random number is 0.1, so the call
  \<^verbatim>\<open>process_payment("k1", Decimal("1000.00"))\<close> stores its message and raises
  \<^verbatim>\<open>ConnectionError\<close>. The retry with the same key and amount returns the fixed
  string \<open>Payment already processed.\<close>, which carries no amount; the message with the
  amount 1000.00 stays in the dictionary.
\<close>

theorem retry_after_failure_returns_fixed_message:
  "process_all (init (1 / 10 ## sconst (1 / 2)))
     [(''k1'', Number False ''100000'' (- 2)), (''k1'', Number False ''100000'' (- 2))] =
   ([Inl (ConnectionError
       ''Payment succeeded but Nigerian bank network failed while responding.''),
     Inr ''Payment already processed.''],
    paid_k1 (sconst (1 / 2)))"
  by (simp add: process_payment_fresh process_payment_seen init_def paid_k1_def)

subsection \<open>Amounts are not checked\<close>

text \<open>
  Claim C4, as stated, fails: \<^verbatim>\<open>process_payment("k1", Decimal("-5.00"))\<close> on a new
  processor, with random number 0.5, returns the success message for \<open>-5.00\<close>, and
  \<open>k1\<close> is in the dictionary after the call.
\<close>

theorem negative_amount_is_committed:
  "fst (process_payment (init (sconst (1 / 2))) ''k1'' (Number True ''500'' (- 2))) =
     Inr ''Success: processed payment of -5.00 with key k1'' \<and>
   processed_keys (snd (process_payment (init (sconst (1 / 2))) ''k1''
     (Number True ''500'' (- 2)))) ''k1'' =
     Some ''Success: processed payment of -5.00 with key k1''"
  by (simp add: process_payment_fresh init_def)

text \<open>
  Claim C4, amended. The amount is never checked: for every key that is not in the
  dictionary and every amount, negative, infinite or NaN included, the call stores the
  success message under the key, and it either returns that message or raises the
  \<^verbatim>\<open>ConnectionError\<close> that follows the store. There is no other failure.
\<close>

theorem no_amount_validation:
  "k \<notin> dom (processed_keys st) \<Longrightarrow>
   processed_keys (snd (process_payment st k a)) k =
     Some (''Success: processed payment of '' @ str_decimal a @ '' with key '' @ k) \<and>
   (fst (process_payment st k a) =
      Inr (''Success: processed payment of '' @ str_decimal a @ '' with key '' @ k) \<or>
    fst (process_payment st k a) =
      Inl (ConnectionError
        ''Payment succeeded but Nigerian bank network failed while responding.''))"
  by (simp add: process_payment_fresh)

text \<open>
  Claim C4, amended, at a concrete input: the amount is \<^verbatim>\<open>Decimal("Infinity")\<close>, the
  key \<open>k2\<close> is new and the random number is 0.5.
\<close>

theorem no_amount_validation_witness:
  "''k2'' \<notin> dom (processed_keys (paid_k1 (sconst (1 / 2)))) \<and>
   processed_keys (snd (process_payment (paid_k1 (sconst (1 / 2))) ''k2''
     (Infinity False))) ''k2'' =
     Some ''Success: processed payment of Infinity with key k2'' \<and>
   fst (process_payment (paid_k1 (sconst (1 / 2))) ''k2'' (Infinity False)) =
     Inr ''Success: processed payment of Infinity with key k2''"
proof -
  have fresh: "''k2'' \<notin> dom (processed_keys (paid_k1 (sconst (1 / 2))))"
    by (simp add: paid_k1_def)
  have reply: "fst (process_payment (paid_k1 (sconst (1 / 2))) ''k2'' (Infinity False)) \<noteq>
      Inl (ConnectionError
        ''Payment succeeded but Nigerian bank network failed while responding.'')"
    by (simp add: process_payment_fresh [OF fresh]) (simp add: paid_k1_def)
  from no_amount_validation [OF fresh, of "Infinity False"] fresh reply
  show ?thesis by simp
qed

subsection \<open>The failure draw\<close>

text \<open>
  Claim C6, as stated, fails: the failure probability cannot be configured. At the
  configured probability 1 the trial fires on the sample 0.5, yet the call
  \<^verbatim>\<open>process_payment("k1", Decimal("1000.00"))\<close> on a new processor whose next
  random number is 0.5 does not raise: the driver labels it \<open>Successful\<close>.
\<close>

theorem failure_probability_not_configurable:
  "\<not> (status (fst (process_payment (init (sconst (1 / 2))) ''k1''
          (Number False ''100000'' (- 2)))) = ''Failed'' \<longleftrightarrow>
       spec_trial_fires 1 (shd (rng (init (sconst (1 / 2))))))"
  by (simp add: process_payment_fresh init_def spec_trial_fires_def)

text \<open>
  Claim C6, amended. For every key that is not in the dictionary, the call draws exactly
  one number from the random source, after storing the success message, and it raises
  \<^verbatim>\<open>ConnectionError\<close> if and only if the trial fires at the fixed probability 0.2,
  that is, the number is below 0.2; otherwise it returns the success message. In both
  cases the success message is stored under the key after the call.
\<close>

theorem failure_injection_fixed_probability:
  "k \<notin> dom (processed_keys st) \<Longrightarrow>
   rng (snd (process_payment st k a)) = stl (rng st) \<and>
   (status (fst (process_payment st k a)) = ''Failed'' \<longleftrightarrow>
      spec_trial_fires (2 / 10) (shd (rng st))) \<and>
   fst (process_payment st k a) =
     (if shd (rng st) < 2 / 10
        then Inl (ConnectionError
               ''Payment succeeded but Nigerian bank network failed while responding.'')
      else Inr (''Success: processed payment of '' @ str_decimal a @ '' with key '' @ k)) \<and>
   processed_keys (snd (process_payment st k a)) k =
     Some (''Success: processed payment of '' @ str_decimal a @ '' with key '' @ k)"
  by (simp add: process_payment_fresh spec_trial_fires_def)

text \<open>
  Claim C6, amended, at a concrete input: a new processor whose random numbers are 0.1
  then 0.5. The call on \<open>k1\<close> raises, the random source is left at 0.5, and \<open>k1\<close> is
  stored.
\<close>

theorem failure_injection_fixed_probability_witness:
  "''k1'' \<notin> dom (processed_keys (init (1 / 10 ## sconst (1 / 2)))) \<and>
   rng (snd (process_payment (init (1 / 10 ## sconst (1 / 2))) ''k1''
     (Number False ''100000'' (- 2)))) = sconst (1 / 2) \<and>
   status (fst (process_payment (init (1 / 10 ## sconst (1 / 2))) ''k1''
     (Number False ''100000'' (- 2)))) = ''Failed'' \<and>
   processed_keys (snd (process_payment (init (1 / 10 ## sconst (1 / 2))) ''k1''
     (Number False ''100000'' (- 2)))) ''k1'' =
     Some ''Success: processed payment of 1000.00 with key k1''"
  using failure_injection_fixed_probability
    [of "''k1''" "init (1 / 10 ## sconst (1 / 2))" "Number False ''100000'' (- 2)"]
  by (simp add: init_def spec_trial_fires_def)

end
